theory Spec2Isabelle
  imports Main
begin

section \<open>JavaScript values and strings\<close>

text \<open>
  The fields of an error object are dynamically typed in the source.  Only the shapes
  the code inspects are kept: \<open>undefined\<close>, \<open>null\<close>, booleans, numbers (integers; the
  status table is keyed by integers) and strings.  A string is a list of bytes (the
  UTF-8 form of a text, the Latin-1 form of a header or of a URL), so its length is
  \<open>Buffer.byteLength\<close>.
\<close>

datatype jsval = JUndefined | JNull | JBool bool | JNum int | JStr string

fun truthy :: "jsval \<Rightarrow> bool" where
  "truthy JUndefined = False"
| "truthy JNull = False"
| "truthy (JBool b) = b"
| "truthy (JNum n) = (n \<noteq> 0)"
| "truthy (JStr s) = (s \<noteq> [])"

text \<open>\<open>a || b\<close> on values, and on an optional string with a string default.\<close>

definition js_or :: "jsval \<Rightarrow> jsval \<Rightarrow> jsval" where
  "js_or a b = (if truthy a then a else b)"

definition str_or :: "string option \<Rightarrow> string \<Rightarrow> string" where
  "str_or a b = (case a of None \<Rightarrow> b | Some v \<Rightarrow> if v = [] then b else v)"

text \<open>\<open>String.prototype.toLowerCase\<close> on the ASCII letters of a header name.\<close>

definition lower_char :: "char \<Rightarrow> char" where
  "lower_char c =
     (case map_of (zip ''ABCDEFGHIJKLMNOPQRSTUVWXYZ'' ''abcdefghijklmnopqrstuvwxyz'') c of
        None \<Rightarrow> c
      | Some l \<Rightarrow> l)"

definition toLowerCase :: "string \<Rightarrow> string" where
  "toLowerCase s = map lower_char s"

text \<open>The class \<open>\s\<close> of a regular expression, on the bytes of a Latin-1 header value.\<close>

definition is_space :: "char \<Rightarrow> bool" where
  "is_space c = (c \<in> set [CHR 0x09, CHR 0x0A, CHR 0x0B, CHR 0x0C, CHR 0x0D, CHR 0x20, CHR 0xA0])"

text \<open>
  \<open>/\s*,\s*/\<close> tried at the start of a string: the rest after the match, when there is
  one.  Both stars are greedy, and a comma is not a space, so no backtracking changes
  the result.
\<close>

definition match_sep :: "string \<Rightarrow> string option" where
  "match_sep s =
     (case dropWhile is_space s of
        [] \<Rightarrow> None
      | c # r \<Rightarrow> if c = CHR '','' then Some (dropWhile is_space r) else None)"

lemma match_sep_shorter: "match_sep s = Some r \<Longrightarrow> length r < length s"
proof -
  assume m: "match_sep s = Some r"
  then obtain c t where d: "dropWhile is_space s = c # t" and r: "r = dropWhile is_space t"
    by (auto simp: match_sep_def split: list.splits if_splits)
  have "length r \<le> length t"
    unfolding r by (rule length_dropWhile_le)
  moreover have "length (c # t) \<le> length s"
    unfolding d [symmetric] by (rule length_dropWhile_le)
  ultimately show ?thesis by simp
qed

text \<open>
  \<open>str.split(/\s*,\s*/)\<close>: the separator is looked for at each position from the left;
  \<open>acc\<close> holds the current piece, reversed.
\<close>

function split_sep :: "string \<Rightarrow> string \<Rightarrow> string list" where
  "split_sep acc [] = [rev acc]"
| "split_sep acc (c # cs) =
     (case match_sep (c # cs) of
        Some r \<Rightarrow> rev acc # split_sep [] r
      | None \<Rightarrow> split_sep (c # acc) cs)"
  by pat_completeness auto
termination
  by (relation "measure (\<lambda>(acc, s). length s)") (auto dest: match_sep_shorter)

definition split_commas :: "string \<Rightarrow> string list" where
  "split_commas s = split_sep [] s"

text \<open>
  \<open>xs.join(sep)\<close>, and the strings with neither a comma nor a space in them: the
  addresses a forwarded-for header lists.
\<close>

fun join :: "string \<Rightarrow> string list \<Rightarrow> string" where
  "join sep [] = []"
| "join sep [x] = x"
| "join sep (x # y # ys) = x @ sep @ join sep (y # ys)"

definition plain :: "string \<Rightarrow> bool" where
  "plain x = (\<forall>ch \<in> set x. ch \<noteq> CHR '','' \<and> \<not> is_space ch)"

text \<open>\<open>str.split(d)\<close> for a one-character separator \<open>d\<close>.\<close>

fun split_on :: "char \<Rightarrow> string \<Rightarrow> string list" where
  "split_on d [] = [[]]"
| "split_on d (c # cs) =
     (if c = d then [] # split_on d cs
      else (case split_on d cs of [] \<Rightarrow> [[c]] | p # ps \<Rightarrow> (c # p) # ps))"

text \<open>\<open>xs[0]\<close>: \<open>undefined\<close> on an empty array.\<close>

definition first :: "'a list \<Rightarrow> 'a option" where
  "first xs = (case xs of [] \<Rightarrow> None | x # _ \<Rightarrow> Some x)"

text \<open>\<open>xs.slice(k)\<close>: a negative \<open>k\<close> counts from the end.\<close>

definition slice_from :: "int \<Rightarrow> 'a list \<Rightarrow> 'a list" where
  "slice_from k xs =
     (if k < 0 then drop (length xs - nat (- k)) xs else drop (nat k) xs)"

section \<open>The transport, the application and the context\<close>

text \<open>The parsed WHATWG URL, as far as the facade reads it.\<close>

record whatwg_url =
  href :: string
  url_hostname :: string

text \<open>What \<open>get URL\<close> hands out: a parsed URL, or the object \<open>Object.create(null)\<close>.\<close>

datatype urlval = ParsedURL whatwg_url | EmptyObject

text \<open>
  The services the core calls and does not implement: the status table
  (\<open>statuses[code]\<close>, \<open>statuses.empty[code]\<close>), the conditional-header comparison
  \<open>fresh\<close>, \<open>net.isIP\<close> and the constructor \<open>new URL\<close> (\<open>None\<close> when it throws).
\<close>

record services =
  statuses :: "int \<Rightarrow> string option"
  statuses_empty :: "int \<Rightarrow> bool"
  fresh_lib :: "(string \<rightharpoonup> string) \<Rightarrow> (string \<rightharpoonup> string) \<Rightarrow> bool"
  net_isIP :: "string \<Rightarrow> nat"
  new_URL :: "string \<Rightarrow> whatwg_url option"

record socket_t =
  encrypted :: bool
  remoteAddress :: "string option"

text \<open>The raw request (\<open>req\<close>): header names are lower-case, as Node stores them.\<close>

record incoming =
  req_method :: string
  req_url :: string
  req_headers :: "string \<rightharpoonup> string"
  httpVersionMajor :: nat
  req_socket :: socket_t

text \<open>
  The raw response (\<open>res\<close>).  \<open>sent_body\<close> is the payload given to \<open>res.end\<close>, once
  it has been called.
\<close>

record outgoing =
  statusCode :: int
  res_headers :: "string \<rightharpoonup> string"
  headersSent :: bool
  finished :: bool
  socket_writable :: bool
  sent_body :: "string option"

record application =
  proxy :: bool
  subdomainOffset :: int
  proxyIpHeader :: string
  maxIpsCount :: int

text \<open>
  The constructor of \<open>Application\<close>: each setting is \<open>options.x || default\<close>, so a
  setting that is absent or falsy falls back to its default.
\<close>

record options =
  opt_proxy :: "bool option"
  opt_subdomainOffset :: "int option"
  opt_proxyIpHeader :: "string option"
  opt_maxIpsCount :: "int option"

definition no_options :: options where
  "no_options = \<lparr>opt_proxy = None, opt_subdomainOffset = None, opt_proxyIpHeader = None,
     opt_maxIpsCount = None\<rparr>"

definition new_Application :: "options \<Rightarrow> application" where
  "new_Application opts =
     \<lparr>proxy = (case opt_proxy opts of None \<Rightarrow> False | Some b \<Rightarrow> b),
      subdomainOffset = (case opt_subdomainOffset opts of None \<Rightarrow> 2 | Some n \<Rightarrow> if n = 0 then 2 else n),
      proxyIpHeader = str_or (opt_proxyIpHeader opts) ''X-Forwarded-For'',
      maxIpsCount = (case opt_maxIpsCount opts of None \<Rightarrow> 0 | Some n \<Rightarrow> n)\<rparr>"

text \<open>The declared body of a response: its kinds are the ones \<open>respond\<close> dispatches on.\<close>

datatype body_t =
    BNull
  | BUndefined
  | BText string
  | BBuffer string
  | BStream string
  | BJson string

text \<open>
  One context per request, with the state of its two facades: \<open>ip_memo\<close> is
  \<open>this[IP]\<close>, \<open>body_val\<close> is \<open>response._body\<close>, \<open>respond_on\<close> is false when
  \<open>ctx.respond === false\<close>.
\<close>

record ctx =
  app :: application
  req :: incoming
  res :: outgoing
  originalUrl :: string
  ip_memo :: "string option"
  memoizedURL :: "urlval option"
  body_val :: body_t
  explicitNullBody :: bool
  respond_on :: bool

section \<open>The request facade (\<open>lib/request.js\<close>)\<close>

text \<open>\<open>get (field)\<close>: the referrer header is read under both of its spellings.\<close>

definition get :: "ctx \<Rightarrow> string \<Rightarrow> string" where
  "get c field =
     (let f = toLowerCase field; h = req_headers (req c) in
      if f = ''referer'' \<or> f = ''referrer''
      then str_or (h ''referrer'') (str_or (h ''referer'') [])
      else str_or (h f) [])"

text \<open>
  Modelled from the spec: the status getter of \<open>lib/response.js\<close>, a file that is not
  among the sources.  The status the response facade declares is the status code of
  the raw response, the one the dispatcher presets (4.2) and the finalizer reads (4.4).
\<close>

definition get_status :: "ctx \<Rightarrow> int" where
  "get_status c = statusCode (res c)"

text \<open>\<open>get fresh\<close> and \<open>get stale\<close>.\<close>

definition get_fresh :: "services \<Rightarrow> ctx \<Rightarrow> bool" where
  "get_fresh sv c =
     (let m = req_method (req c); s = get_status c in
      if m \<noteq> ''GET'' \<and> m \<noteq> ''HEAD'' then False
      else if (200 \<le> s \<and> s < 300) \<or> s = 304
        then fresh_lib sv (req_headers (req c)) (res_headers (res c))
      else False)"

definition get_stale :: "services \<Rightarrow> ctx \<Rightarrow> bool" where
  "get_stale sv c = (\<not> get_fresh sv c)"




text \<open>\<open>get protocol\<close>, \<open>get host\<close> and \<open>get origin\<close>.\<close>

definition first_piece :: "string \<Rightarrow> string" where
  "first_piece s = (case split_commas s of [] \<Rightarrow> [] | x # _ \<Rightarrow> x)"

definition get_protocol :: "ctx \<Rightarrow> string" where
  "get_protocol c =
     (if encrypted (req_socket (req c)) then ''https''
      else if \<not> proxy (app c) then ''http''
      else (let proto = get c ''X-Forwarded-Proto'' in
            if proto \<noteq> [] then first_piece proto else ''http''))"

definition get_host :: "ctx \<Rightarrow> string" where
  "get_host c =
     (let forwarded = (if proxy (app c) then get c ''X-Forwarded-Host'' else []);
          authority = (if 2 \<le> httpVersionMajor (req c) then get c '':authority'' else []);
          host = (if forwarded \<noteq> [] then forwarded
                  else if authority \<noteq> [] then authority
                  else get c ''Host'')
      in if host = [] then [] else first_piece host)"

definition get_origin :: "ctx \<Rightarrow> string" where
  "get_origin c = get_protocol c @ ''://'' @ get_host c"

text \<open>
  \<open>get URL\<close>: the constructor is called inside \<open>try\<close>; when it throws, the memo is the
  empty object.  Both values are truthy, so either one stops later reads from parsing.
\<close>

definition get_URL :: "services \<Rightarrow> ctx \<Rightarrow> urlval \<times> ctx" where
  "get_URL sv c =
     (case memoizedURL c of
        Some v \<Rightarrow> (v, c)
      | None \<Rightarrow>
          (let v = (case new_URL sv (get_origin c @ originalUrl c) of
                      Some u \<Rightarrow> ParsedURL u
                    | None \<Rightarrow> EmptyObject)
           in (v, c\<lparr>memoizedURL := Some v\<rparr>)))"

text \<open>\<open>get hostname\<close>: a bracketed (IPv6) host is read from the parsed URL.\<close>

definition get_hostname :: "services \<Rightarrow> ctx \<Rightarrow> string \<times> ctx" where
  "get_hostname sv c =
     (let host = get_host c in
      if host = [] then ([], c)
      else if first host = Some CHR ''[''
        then (case get_URL sv c of
                (ParsedURL u, c') \<Rightarrow> (url_hostname u, c')
              | (EmptyObject, c') \<Rightarrow> ([], c'))
      else (case split_on CHR '':'' host of [] \<Rightarrow> ([], c) | x # _ \<Rightarrow> (x, c)))"

text \<open>\<open>get subdomains\<close>.\<close>

definition get_subdomains :: "services \<Rightarrow> ctx \<Rightarrow> string list \<times> ctx" where
  "get_subdomains sv c =
     (let offset = subdomainOffset (app c) in
      case get_hostname sv c of
        (hostname, c') \<Rightarrow>
          if net_isIP sv hostname \<noteq> 0 then ([], c')
          else (slice_from offset (rev (split_on CHR ''.'' hostname)), c'))"

section \<open>The response facade\<close>

text \<open>
  The file \<open>lib/response.js\<close> is not among the sources.  What \<open>respond\<close> and \<open>onerror\<close>
  use of it is modelled from the spec.  Section 3: the response facade "tracks a declared
  status code, a declared body value [...] and header state, all mutable by middleware
  until headers are physically sent to the transport, after which header mutation is
  rejected".  Section 6: the raw response exposes "header get/set/remove, a
  headers-already-sent flag, and an end-of-response write operation".
\<close>

text \<open>Modelled from the spec: \<open>headerSent\<close> is the headers-already-sent flag of the transport (6).\<close>

definition headerSent :: "ctx \<Rightarrow> bool" where
  "headerSent c = headersSent (res c)"

text \<open>
  Modelled from the spec: \<open>writable\<close>, false once "the transport is no longer writable"
  (4.4, step 1): the response has ended, or its socket is closed.
\<close>

definition writable :: "ctx \<Rightarrow> bool" where
  "writable c = (if finished (res c) then False else socket_writable (res c))"

text \<open>
  Modelled from the spec: \<open>has\<close>, \<open>set\<close> and \<open>remove\<close>, the header operations of the
  transport (6) under a case-insensitive name; \<open>set\<close> and \<open>remove\<close> do nothing once
  the headers are sent (3).
\<close>

definition has :: "ctx \<Rightarrow> string \<Rightarrow> bool" where
  "has c field = (res_headers (res c) (toLowerCase field) \<noteq> None)"

definition set_header :: "string \<Rightarrow> string \<Rightarrow> ctx \<Rightarrow> ctx" where
  "set_header field v c =
     (if headerSent c then c
      else c\<lparr>res := (res c)\<lparr>res_headers := (res_headers (res c))(toLowerCase field \<mapsto> v)\<rparr>\<rparr>)"

definition set_headers :: "(string \<times> string) list \<Rightarrow> ctx \<Rightarrow> ctx" where
  "set_headers kvs c = fold (\<lambda>(k, v). set_header k v) kvs c"

definition remove :: "string \<Rightarrow> ctx \<Rightarrow> ctx" where
  "remove field c =
     (if headerSent c then c
      else c\<lparr>res := (res c)\<lparr>res_headers := (res_headers (res c))(toLowerCase field := None)\<rparr>\<rparr>)"

text \<open>
  Modelled from the spec: the status setter writes the declared status, the status code
  of the raw response, until the headers are sent (3).
\<close>

definition set_status :: "int \<Rightarrow> ctx \<Rightarrow> ctx" where
  "set_status code c =
     (if headerSent c then c else c\<lparr>res := (res c)\<lparr>statusCode := code\<rparr>\<rparr>)"

text \<open>
  Modelled from the spec: \<open>type = 'text'\<close>, which "forces content type to plain text"
  (4.5, step 4).
\<close>

definition set_type_text :: "ctx \<Rightarrow> ctx" where
  "set_type_text c = set_header ''Content-Type'' ''text/plain; charset=utf-8'' c"

text \<open>\<open>String(n)\<close> for an integer.\<close>

fun string_of_nat :: "nat \<Rightarrow> string" where
  "string_of_nat n =
     (if n < 10 then [''0123456789'' ! n]
      else string_of_nat (n div 10) @ [''0123456789'' ! (n mod 10)])"

definition string_of_int :: "int \<Rightarrow> string" where
  "string_of_int i = (if i < 0 then CHR ''-'' # string_of_nat (nat (- i)) else string_of_nat (nat i))"

text \<open>
  Modelled from the spec: the length setter writes the Content-Length header, as a
  decimal number (4.4: "set content-length").
\<close>

definition set_length :: "int \<Rightarrow> ctx \<Rightarrow> ctx" where
  "set_length n c = set_header ''Content-Length'' (string_of_int n) c"

text \<open>
  Modelled from the spec: the byte length of the declared body, where it has one (4.4,
  step 3: "content-length from the declared body length"); a stream and an empty body
  have none, a structured value has the length of its JSON text.
\<close>

fun body_length :: "body_t \<Rightarrow> int option" where
  "body_length BNull = None"
| "body_length BUndefined = None"
| "body_length (BText s) = Some (int (length s))"
| "body_length (BBuffer s) = Some (int (length s))"
| "body_length (BStream s) = None"
| "body_length (BJson s) = Some (int (length s))"

definition digit_value :: "char \<Rightarrow> nat option" where
  "digit_value c = map_of (zip ''0123456789'' [0, 1, 2, 3, 4, 5, 6, 7, 8, 9]) c"

definition parse_decimal :: "string \<Rightarrow> nat" where
  "parse_decimal s =
     foldl (\<lambda>a c. 10 * a + (case digit_value c of None \<Rightarrow> 0 | Some d \<Rightarrow> d)) 0
       (takeWhile (\<lambda>c. digit_value c \<noteq> None) s)"

text \<open>
  Modelled from the spec: the length the response declares is the one of its
  Content-Length header when there is one, and the length of the declared body
  otherwise.
\<close>

definition get_length :: "ctx \<Rightarrow> int option" where
  "get_length c =
     (case res_headers (res c) ''content-length'' of
        Some s \<Rightarrow> Some (int (parse_decimal s))
      | None \<Rightarrow> body_length (body_val c))"

text \<open>
  Modelled from the spec: assigning the empty body, as the finalizer does at a status
  that forbids a body (4.4, step 2: "strip body entirely"; 8: the finalized response
  "has zero content-length and no body bytes"): the declared body becomes null, the
  explicit empty body flag (4.4, step 4) is set, and the header fields that describe a
  body go, while headers can still change.
\<close>

definition set_body_null :: "ctx \<Rightarrow> ctx" where
  "set_body_null c =
     remove ''Transfer-Encoding'' (remove ''Content-Length'' (remove ''Content-Type''
       (c\<lparr>body_val := BNull, explicitNullBody := True\<rparr>)))"

text \<open>
  Modelled from the spec: \<open>ctx.message\<close> is the reason phrase of the declared status
  (4.4, step 4).
\<close>

definition get_message :: "services \<Rightarrow> ctx \<Rightarrow> string option" where
  "get_message sv c = statuses sv (get_status c)"

text \<open>
  \<open>res.end(payload)\<close>, the end-of-response write of the transport: the headers are
  committed, the payload (none for \<open>res.end()\<close>) is written, the response has ended.  A
  stream piped into the response ends it with the content of the stream.
\<close>

definition res_end :: "string option \<Rightarrow> ctx \<Rightarrow> ctx" where
  "res_end payload c =
     c\<lparr>res := (res c)\<lparr>headersSent := True, finished := True,
          sent_body := Some (case payload of None \<Rightarrow> [] | Some s \<Rightarrow> s)\<rparr>\<rparr>"

section \<open>The response finalizer (\<open>respond\<close> in \<open>lib/application.js\<close>)\<close>

text \<open>
  A structured body is given with its JSON text (\<open>BJson\<close>), a stream with its content
  (\<open>BStream\<close>).
\<close>

definition respond :: "services \<Rightarrow> ctx \<Rightarrow> ctx" where
  "respond sv c =
     (if \<not> respond_on c then c
      else if \<not> writable c then c
      else
        let code = get_status c in
        if statuses_empty sv code then res_end None (set_body_null c)
        else if req_method (req c) = ''HEAD'' then
          res_end None
            (if \<not> headersSent (res c) \<and> \<not> has c ''Content-Length''
             then (case get_length c of None \<Rightarrow> c | Some n \<Rightarrow> set_length n c)
             else c)
        else
          (case body_val c of
             BBuffer s \<Rightarrow> res_end (Some s) c
           | BText s \<Rightarrow> res_end (Some s) c
           | BStream s \<Rightarrow> res_end (Some s) c
           | BJson s \<Rightarrow>
               res_end (Some s)
                 (if \<not> headersSent (res c) then set_length (int (length s)) c else c)
           | _ \<Rightarrow>
               if explicitNullBody c
               then res_end None
                      (set_length 0 (remove ''Transfer-Encoding'' (remove ''Content-Type'' c)))
               else
                 let body = (if 2 \<le> httpVersionMajor (req c) then string_of_int code
                             else str_or (get_message sv c) (string_of_int code))
                 in res_end (Some body)
                      (if \<not> headersSent (res c)
                       then set_length (int (length body)) (set_type_text c)
                       else c)))"

section \<open>Error recovery (\<open>onerror\<close> of the context)\<close>

record err_t =
  err_status :: jsval
  err_statusCode :: jsval
  err_code :: jsval
  err_expose :: jsval
  err_message :: string
  err_headers :: "(string \<times> string) list"
  err_headerSent :: bool

text \<open>\<open>new Error(message)\<close>: no other property is set.\<close>

definition new_Error :: "string \<Rightarrow> err_t" where
  "new_Error m = \<lparr>err_status = JUndefined, err_statusCode = JUndefined, err_code = JUndefined,
     err_expose = JUndefined, err_message = m, err_headers = [], err_headerSent = False\<rparr>"

text \<open>
  What reaches \<open>onerror\<close>: \<open>null\<close> or \<open>undefined\<close>, a value that is not an error (with
  its rendering by \<open>%j\<close>), or an error.
\<close>

datatype thrown = ThrownNullish | ThrownValue string | ThrownError err_t

definition as_error :: "thrown \<Rightarrow> err_t option" where
  "as_error t =
     (case t of
        ThrownNullish \<Rightarrow> None
      | ThrownValue j \<Rightarrow> Some (new_Error (''non-error thrown: '' @ j))
      | ThrownError e \<Rightarrow> Some e)"

text \<open>The status \<open>onerror\<close> settles on, and the message it sends.\<close>

text \<open>\<open>statuses[n]\<close> is truthy: the status is in the table.\<close>

definition known :: "services \<Rightarrow> int \<Rightarrow> bool" where
  "known sv n = (case statuses sv n of None \<Rightarrow> False | Some m \<Rightarrow> m \<noteq> [])"

definition resolve_status :: "services \<Rightarrow> err_t \<Rightarrow> int" where
  "resolve_status sv e =
     (let statusCode0 = js_or (err_status e) (err_statusCode e);
          statusCode1 = (if err_code e = JStr ''ENOENT'' then JNum 404 else statusCode0)
      in case statusCode1 of
           JNum n \<Rightarrow> (if str_or (statuses sv n) [] = [] then 500 else n)
         | _ \<Rightarrow> 500)"

definition resolve_msg :: "services \<Rightarrow> err_t \<Rightarrow> string option" where
  "resolve_msg sv e =
     (if truthy (err_expose e) then Some (err_message e)
      else statuses sv (resolve_status sv e))"

text \<open>
  The outcome of \<open>onerror\<close>: the context, the error object as it is left (none when
  nothing was thrown), and the errors emitted on the application's error channel.  When
  the message is \<open>undefined\<close> (a table without the status 500), \<open>Buffer.byteLength\<close>
  throws: the outcome is that error.
\<close>

type_synonym outcome = "err_t + (ctx \<times> err_t option \<times> err_t list)"

text \<open>What an outcome leaves: the status and the payload of the response, the error.\<close>

definition outcome_ctx :: "outcome \<Rightarrow> ctx option" where
  "outcome_ctx r = (case r of Inl _ \<Rightarrow> None | Inr (c, _, _) \<Rightarrow> Some c)"

definition outcome_status :: "outcome \<Rightarrow> int option" where
  "outcome_status r = (case outcome_ctx r of None \<Rightarrow> None | Some c \<Rightarrow> Some (statusCode (res c)))"

definition outcome_body :: "outcome \<Rightarrow> string option" where
  "outcome_body r = (case outcome_ctx r of None \<Rightarrow> None | Some c \<Rightarrow> sent_body (res c))"

definition outcome_error :: "outcome \<Rightarrow> err_t option" where
  "outcome_error r = (case r of Inl _ \<Rightarrow> None | Inr (_, e, _) \<Rightarrow> e)"

definition outcome_emitted :: "outcome \<Rightarrow> err_t list" where
  "outcome_emitted r = (case r of Inl _ \<Rightarrow> [] | Inr (_, _, es) \<Rightarrow> es)"

definition onerror :: "services \<Rightarrow> thrown \<Rightarrow> ctx \<Rightarrow> outcome" where
  "onerror sv t c =
     (case as_error t of
        None \<Rightarrow> Inr (c, None, [])
      | Some err0 \<Rightarrow>
          if headerSent c \<or> \<not> writable c
          then (let err = err0\<lparr>err_headerSent := True\<rparr> in Inr (c, Some err, [err]))
          else
            (let c1 = c\<lparr>res := (res c)\<lparr>res_headers := Map.empty\<rparr>\<rparr>;
                 c2 = set_headers (err_headers err0) c1;
                 c3 = set_type_text c2;
                 statusCode = resolve_status sv err0
             in case resolve_msg sv err0 of
                  None \<Rightarrow> Inl (new_Error ''The string argument must be of type string or a buffer'')
                | Some msg \<Rightarrow>
                    (let c4 = set_status statusCode c3;
                         err = err0\<lparr>err_status := JNum statusCode\<rparr>;
                         c5 = set_length (int (length msg)) c4
                     in Inr (res_end (Some msg) c5, Some err, [err0]))))"

section \<open>The dispatcher (\<open>handleRequest\<close> in \<open>lib/application.js\<close>)\<close>

text \<open>
  The composed middleware is a function of the context: it returns the context as the
  chain leaves it, and what the chain threw, if it did.  The promise it returns is
  settled by \<open>respond\<close> or by \<open>onerror\<close>.
\<close>

definition settle :: "services \<Rightarrow> ctx \<times> thrown option \<Rightarrow> outcome" where
  "settle sv r =
     (case r of
        (c, None) \<Rightarrow> Inr (respond sv c, None, [])
      | (c, Some t) \<Rightarrow> onerror sv t c)"

definition handleRequest :: "services \<Rightarrow> ctx \<Rightarrow> (ctx \<Rightarrow> ctx \<times> thrown option) \<Rightarrow> outcome" where
  "handleRequest sv c fnMiddleware =
     (let c0 = c\<lparr>res := (res c)\<lparr>statusCode := 404\<rparr>\<rparr> in settle sv (fnMiddleware c0))"

section \<open>Example data\<close>

text \<open>A few entries of the status table, and stand-ins for the other services.\<close>

definition demo_statuses :: "int \<Rightarrow> string option" where
  "demo_statuses = map_of [(200, ''OK''), (204, ''No Content''), (304, ''Not Modified''),
     (403, ''Forbidden''), (404, ''Not Found''), (418, ''I'm a teapot''),
     (500, ''Internal Server Error'')]"

definition demo_fresh :: "(string \<rightharpoonup> string) \<Rightarrow> (string \<rightharpoonup> string) \<Rightarrow> bool" where
  "demo_fresh reqh resh =
     (case reqh ''if-none-match'' of None \<Rightarrow> False | Some t \<Rightarrow> resh ''etag'' = Some t)"

definition v4_seg :: "string \<Rightarrow> bool" where
  "v4_seg s = (s \<noteq> [] \<and> length s \<le> 3 \<and> list_all (\<lambda>c. digit_value c \<noteq> None) s \<and>
     (s = ''0'' \<or> first s \<noteq> Some CHR ''0'') \<and> parse_decimal s \<le> 255)"

definition demo_isIP :: "string \<Rightarrow> nat" where
  "demo_isIP s =
     (let segs = split_on CHR ''.'' s in if length segs = 4 \<and> list_all v4_seg segs then 4 else 0)"

definition demo_new_URL :: "string \<Rightarrow> whatwg_url option" where
  "demo_new_URL s =
     (case split_on CHR ''/'' s of
        scheme # [] # host # _ \<Rightarrow>
          if host = [] \<or> CHR '' '' \<in> set host \<or> (scheme \<noteq> ''http:'' \<and> scheme \<noteq> ''https:'')
          then None
          else Some \<lparr>href = s, url_hostname = takeWhile (\<lambda>ch. ch \<noteq> CHR '':'') host\<rparr>
      | _ \<Rightarrow> None)"

definition demo_services :: services where
  "demo_services = \<lparr>statuses = demo_statuses, statuses_empty = (\<lambda>n. n \<in> {204, 205, 304}),
     fresh_lib = demo_fresh, net_isIP = demo_isIP, new_URL = demo_new_URL\<rparr>"


definition demo_app :: application where
  "demo_app = \<lparr>proxy = False, subdomainOffset = 2,
     proxyIpHeader = ''X-Forwarded-For'', maxIpsCount = 0\<rparr>"

definition demo_req :: incoming where
  "demo_req = \<lparr>req_method = ''GET'', req_url = ''/users?page=2'',
     req_headers = [''host'' \<mapsto> ''a.b.example.com'', ''x-forwarded-for'' \<mapsto> ''1.2.3.4, 5.6.7.8''],
     httpVersionMajor = 1,
     req_socket = \<lparr>encrypted = False, remoteAddress = Some ''10.0.0.7''\<rparr>\<rparr>"

definition demo_res :: outgoing where
  "demo_res = \<lparr>statusCode = 200, res_headers = Map.empty, headersSent = False,
     finished = False, socket_writable = True, sent_body = None\<rparr>"

definition demo_ctx :: ctx where
  "demo_ctx = \<lparr>app = demo_app, req = demo_req, res = demo_res,
     originalUrl = ''/users?page=2'', ip_memo = None, memoizedURL = None,
     body_val = BUndefined, explicitNullBody = False, respond_on = True\<rparr>"

definition demo_ip_host_ctx :: ctx where
  "demo_ip_host_ctx = demo_ctx\<lparr>req := demo_req\<lparr>req_headers := [''host'' \<mapsto> ''127.0.0.1:3000'']\<rparr>\<rparr>"

definition demo_bad_host_ctx :: ctx where
  "demo_bad_host_ctx = demo_ctx\<lparr>req := demo_req\<lparr>req_headers := [''host'' \<mapsto> ''bad host'']\<rparr>\<rparr>"

definition demo_flushed_ctx :: ctx where
  "demo_flushed_ctx = demo_ctx\<lparr>res := demo_res\<lparr>headersSent := True\<rparr>\<rparr>"

definition demo_head_ctx :: ctx where
  "demo_head_ctx = demo_ctx\<lparr>req := demo_req\<lparr>req_method := ''HEAD''\<rparr>, body_val := BText ''hello''\<rparr>"

definition demo_head_flushed_ctx :: ctx where
  "demo_head_flushed_ctx = demo_head_ctx\<lparr>res := demo_res\<lparr>headersSent := True\<rparr>\<rparr>"

definition demo_no_content_ctx :: ctx where
  "demo_no_content_ctx = demo_ctx\<lparr>body_val := BText ''hello'',
     res := demo_res\<lparr>statusCode := 204,
       res_headers := [''content-length'' \<mapsto> ''5'', ''content-type'' \<mapsto> ''text/plain'']\<rparr>\<rparr>"

text \<open>The same response once a handler has flushed its headers.\<close>

definition demo_no_content_flushed_ctx :: ctx where
  "demo_no_content_flushed_ctx =
     demo_no_content_ctx\<lparr>res := (res demo_no_content_ctx)\<lparr>headersSent := True\<rparr>\<rparr>"

text \<open>
  Errors: a business error with the status 418 and an exposable message, an error of
  the file system wrapped with the status 403, and a plain defect.
\<close>

definition demo_teapot :: err_t where
  "demo_teapot = (new_Error ''teapot'')\<lparr>err_status := JNum 418, err_expose := JBool True\<rparr>"

definition demo_enoent :: err_t where
  "demo_enoent = (new_Error ''ENOENT: no such file or directory'')
     \<lparr>err_status := JNum 403, err_code := JStr ''ENOENT''\<rparr>"

definition demo_defect :: err_t where
  "demo_defect = new_Error ''boom''"

text \<open>An error with a status that the table does not list.\<close>

definition demo_unlisted :: err_t where
  "demo_unlisted = (new_Error ''odd'')\<lparr>err_status := JNum 999\<rparr>"

text \<open>A chain of middleware that does nothing.\<close>

definition demo_idle_chain :: "ctx \<Rightarrow> ctx \<times> thrown option" where
  "demo_idle_chain c = (c, None)"


section \<open>Freshness\<close>

text \<open>
  C7.  \<open>fresh\<close> is true only when the method is GET or HEAD and the status is in the
  2xx range or is 304; in that case it is the result of the conditional-header
  comparison of the request headers with the response headers; in every other case
  it is false; \<open>stale\<close> is the negation of \<open>fresh\<close>.
\<close>

theorem fresh_stale_spec:
  "(get_fresh sv c \<longrightarrow>
      (req_method (req c) = ''GET'' \<or> req_method (req c) = ''HEAD'') \<and>
      ((200 \<le> get_status c \<and> get_status c < 300) \<or> get_status c = 304)) \<and>
   ((req_method (req c) = ''GET'' \<or> req_method (req c) = ''HEAD'') \<and>
    ((200 \<le> get_status c \<and> get_status c < 300) \<or> get_status c = 304) \<longrightarrow>
      get_fresh sv c = fresh_lib sv (req_headers (req c)) (res_headers (res c))) \<and>
   (\<not> ((req_method (req c) = ''GET'' \<or> req_method (req c) = ''HEAD'') \<and>
       ((200 \<le> get_status c \<and> get_status c < 300) \<or> get_status c = 304)) \<longrightarrow>
      get_fresh sv c = False) \<and>
   get_stale sv c = (\<not> get_fresh sv c)"
  by (auto simp: get_fresh_def get_stale_def Let_def)

theorem fresh_stale_witness:
  "get_fresh demo_services
     (demo_ctx\<lparr>req := demo_req\<lparr>req_headers := [''if-none-match'' \<mapsto> ''abc'']\<rparr>,
               res := demo_res\<lparr>res_headers := [''etag'' \<mapsto> ''abc'']\<rparr>\<rparr>) \<and>
   \<not> get_stale demo_services
     (demo_ctx\<lparr>req := demo_req\<lparr>req_headers := [''if-none-match'' \<mapsto> ''abc'']\<rparr>,
               res := demo_res\<lparr>res_headers := [''etag'' \<mapsto> ''abc'']\<rparr>\<rparr>) \<and>
   \<not> get_fresh demo_services
     (demo_ctx\<lparr>req := demo_req\<lparr>req_method := ''POST'', req_headers := [''if-none-match'' \<mapsto> ''abc'']\<rparr>,
               res := demo_res\<lparr>res_headers := [''etag'' \<mapsto> ''abc'']\<rparr>\<rparr>)"
  using fresh_stale_spec [of demo_services
      "demo_ctx\<lparr>req := demo_req\<lparr>req_headers := [''if-none-match'' \<mapsto> ''abc'']\<rparr>,
                res := demo_res\<lparr>res_headers := [''etag'' \<mapsto> ''abc'']\<rparr>\<rparr>"]
    fresh_stale_spec [of demo_services
      "demo_ctx\<lparr>req := demo_req\<lparr>req_method := ''POST'', req_headers := [''if-none-match'' \<mapsto> ''abc'']\<rparr>,
                res := demo_res\<lparr>res_headers := [''etag'' \<mapsto> ''abc'']\<rparr>\<rparr>"]
  by (simp add: get_status_def demo_ctx_def demo_req_def demo_res_def demo_services_def demo_fresh_def)

section \<open>Client addresses\<close>


















section \<open>The parsed URL\<close>

lemma get_URL_memo_hit: "memoizedURL c = Some v \<Longrightarrow> get_URL sv c = (v, c)"
  by (simp add: get_URL_def)

lemma get_URL_memo_set: "memoizedURL (snd (get_URL sv c)) = Some (fst (get_URL sv c))"
  by (cases "memoizedURL c") (simp_all add: get_URL_def Let_def)

text \<open>
  C10.  Reading \<open>URL\<close> always returns a value: on a first read, when the constructor
  throws on the origin followed by the original URL, the value is the empty object, and
  when it returns a URL, the value is that URL.  The value is kept in the memo, and every
  later read of a context that still holds this memo returns the same value and changes
  nothing, whatever else of the request has changed.
\<close>

theorem URL_total_memoized:
  "(memoizedURL c = None \<and> new_URL sv (get_origin c @ originalUrl c) = None \<longrightarrow>
      fst (get_URL sv c) = EmptyObject) \<and>
   (memoizedURL c = None \<and> new_URL sv (get_origin c @ originalUrl c) = Some u \<longrightarrow>
      fst (get_URL sv c) = ParsedURL u) \<and>
   memoizedURL (snd (get_URL sv c)) = Some (fst (get_URL sv c)) \<and>
   (\<forall>sv' c'. memoizedURL c' = memoizedURL (snd (get_URL sv c)) \<longrightarrow>
      get_URL sv' c' = (fst (get_URL sv c), c'))"
proof -
  have failing: "memoizedURL c = None \<and> new_URL sv (get_origin c @ originalUrl c) = None \<longrightarrow>
      fst (get_URL sv c) = EmptyObject"
    by (simp add: get_URL_def Let_def)
  have parsing: "memoizedURL c = None \<and> new_URL sv (get_origin c @ originalUrl c) = Some u \<longrightarrow>
      fst (get_URL sv c) = ParsedURL u"
    by (simp add: get_URL_def Let_def)
  have later: "\<forall>sv' c'. memoizedURL c' = memoizedURL (snd (get_URL sv c)) \<longrightarrow>
      get_URL sv' c' = (fst (get_URL sv c), c')"
    by (simp add: get_URL_memo_set get_URL_memo_hit)
  show ?thesis
    using failing parsing later get_URL_memo_set [of sv c] by blast
qed

lemma demo_host: "get_host demo_ctx = ''a.b.example.com''"
  by (simp add: get_host_def get_def demo_ctx_def demo_req_def demo_app_def str_or_def
      toLowerCase_def lower_char_def first_piece_def split_commas_def match_sep_def is_space_def)

lemma demo_bad_host: "get_host demo_bad_host_ctx = ''bad host''"
  by (simp add: get_host_def get_def demo_bad_host_ctx_def demo_ctx_def demo_req_def demo_app_def
      str_or_def toLowerCase_def lower_char_def first_piece_def split_commas_def match_sep_def
      is_space_def)

lemma demo_protocol: "get_protocol demo_ctx = ''http''" "get_protocol demo_bad_host_ctx = ''http''"
  by (simp_all add: get_protocol_def demo_bad_host_ctx_def demo_ctx_def demo_req_def demo_app_def)

lemma demo_parse_ok:
  "new_URL demo_services (get_origin demo_ctx @ originalUrl demo_ctx) =
     Some \<lparr>href = ''http://a.b.example.com/users?page=2'', url_hostname = ''a.b.example.com''\<rparr>"
  by (simp add: get_origin_def demo_host demo_protocol demo_services_def demo_new_URL_def)
     (simp add: demo_ctx_def)

lemma demo_parse_fails:
  "new_URL demo_services (get_origin demo_bad_host_ctx @ originalUrl demo_bad_host_ctx) = None"
  by (simp add: get_origin_def demo_bad_host demo_protocol demo_services_def demo_new_URL_def)
     (simp add: demo_bad_host_ctx_def demo_ctx_def)

theorem URL_total_memoized_witness:
  "memoizedURL demo_bad_host_ctx = None \<and>
   fst (get_URL demo_services demo_bad_host_ctx) = EmptyObject \<and>
   get_URL demo_services (snd (get_URL demo_services demo_bad_host_ctx)) =
     (EmptyObject, snd (get_URL demo_services demo_bad_host_ctx)) \<and>
   fst (get_URL demo_services demo_ctx) =
     ParsedURL \<lparr>href = ''http://a.b.example.com/users?page=2'', url_hostname = ''a.b.example.com''\<rparr> \<and>
   get_URL demo_services (snd (get_URL demo_services demo_ctx)) =
     (ParsedURL \<lparr>href = ''http://a.b.example.com/users?page=2'', url_hostname = ''a.b.example.com''\<rparr>,
      snd (get_URL demo_services demo_ctx))"
proof -
  have m: "memoizedURL demo_bad_host_ctx = None" "memoizedURL demo_ctx = None"
    by (simp_all add: demo_bad_host_ctx_def demo_ctx_def)
  note bad = URL_total_memoized [of demo_bad_host_ctx demo_services
        "\<lparr>href = ''http://a.b.example.com/users?page=2'', url_hostname = ''a.b.example.com''\<rparr>"]
  note good = URL_total_memoized [of demo_ctx demo_services
        "\<lparr>href = ''http://a.b.example.com/users?page=2'', url_hostname = ''a.b.example.com''\<rparr>"]
  have b1: "fst (get_URL demo_services demo_bad_host_ctx) = EmptyObject"
    using bad m(1) demo_parse_fails by blast
  have b2: "get_URL demo_services (snd (get_URL demo_services demo_bad_host_ctx)) =
     (fst (get_URL demo_services demo_bad_host_ctx), snd (get_URL demo_services demo_bad_host_ctx))"
    using bad by blast
  have g1: "fst (get_URL demo_services demo_ctx) =
     ParsedURL \<lparr>href = ''http://a.b.example.com/users?page=2'', url_hostname = ''a.b.example.com''\<rparr>"
    using good m(2) demo_parse_ok by blast
  have g2: "get_URL demo_services (snd (get_URL demo_services demo_ctx)) =
     (fst (get_URL demo_services demo_ctx), snd (get_URL demo_services demo_ctx))"
    using good by blast
  show ?thesis
    using m(1) b1 b2 g1 g2 by (simp only: simp_thms)
qed

section \<open>Subdomains\<close>

lemma split_on_nonempty: "split_on d s \<noteq> []"
  by (induction s) (auto split: list.splits)

lemma join_split_on: "join [d] (split_on d s) = s"
proof (induction s)
  case Nil
  then show ?case by simp
next
  case (Cons c s)
  obtain p ps where ps: "split_on d s = p # ps"
    using split_on_nonempty [of d s] by (cases "split_on d s") auto
  show ?case
  proof (cases "c = d")
    case True
    then show ?thesis using Cons ps by simp
  next
    case False
    then show ?thesis using Cons ps by (cases ps) simp_all
  qed
qed

lemma split_on_pieces: "p \<in> set (split_on d s) \<Longrightarrow> d \<notin> set p"
proof (induction s arbitrary: p)
  case Nil
  then show ?case by simp
next
  case (Cons c s)
  then show ?case
    by (cases "split_on d s") (auto split: if_splits)
qed

text \<open>
  C8 (amended).  For a resolved hostname that \<open>net.isIP\<close> takes for an address,
  \<open>subdomains\<close> is empty.  For every other resolved hostname, and an offset that is not
  negative, \<open>subdomains\<close> is the hostname split at its dots (the pieces hold no dot and
  joined by dots give the hostname back), reversed, without its leading \<open>offset\<close>
  pieces; the offset of an application made without options is 2.
\<close>

theorem subdomains_spec:
  assumes "get_hostname sv c = (h, c')"
  shows "(net_isIP sv h \<noteq> 0 \<longrightarrow> get_subdomains sv c = ([], c')) \<and>
         (net_isIP sv h = 0 \<and> 0 \<le> subdomainOffset (app c) \<longrightarrow>
            get_subdomains sv c =
              (drop (nat (subdomainOffset (app c))) (rev (split_on CHR ''.'' h)), c')) \<and>
         join ''.'' (split_on CHR ''.'' h) = h \<and>
         (\<forall>p \<in> set (split_on CHR ''.'' h). CHR ''.'' \<notin> set p) \<and>
         subdomainOffset (new_Application no_options) = 2"
proof -
  have ip: "net_isIP sv h \<noteq> 0 \<longrightarrow> get_subdomains sv c = ([], c')"
    using assms by (simp add: get_subdomains_def)
  have name: "net_isIP sv h = 0 \<and> 0 \<le> subdomainOffset (app c) \<longrightarrow>
            get_subdomains sv c =
              (drop (nat (subdomainOffset (app c))) (rev (split_on CHR ''.'' h)), c')"
    using assms by (simp add: get_subdomains_def slice_from_def)
  have dflt: "subdomainOffset (new_Application no_options) = 2"
    by (simp add: new_Application_def no_options_def)
  show ?thesis
    using ip name dflt join_split_on [of "CHR ''.''" h] split_on_pieces [of _ "CHR ''.''" h]
    by blast
qed

lemma demo_hostname: "get_hostname demo_services demo_ctx = (''a.b.example.com'', demo_ctx)"
  by (simp add: get_hostname_def demo_host first_def)

lemma demo_ip_host: "get_host demo_ip_host_ctx = ''127.0.0.1:3000''"
  by (simp add: get_host_def get_def demo_ip_host_ctx_def demo_ctx_def demo_req_def demo_app_def
      str_or_def toLowerCase_def lower_char_def first_piece_def split_commas_def match_sep_def
      is_space_def)

lemma demo_ip_hostname:
  "get_hostname demo_services demo_ip_host_ctx = (''127.0.0.1'', demo_ip_host_ctx)"
  by (simp add: get_hostname_def demo_ip_host first_def)

lemma demo_isIP_name: "net_isIP demo_services ''a.b.example.com'' = 0"
  by (simp add: demo_services_def demo_isIP_def v4_seg_def digit_value_def)

lemma demo_isIP_address: "net_isIP demo_services ''127.0.0.1'' = 4"
  by (simp add: demo_services_def demo_isIP_def v4_seg_def digit_value_def parse_decimal_def first_def)

theorem subdomains_witness:
  "get_hostname demo_services demo_ctx = (''a.b.example.com'', demo_ctx) \<and>
   subdomainOffset (app demo_ctx) = 2 \<and>
   get_subdomains demo_services demo_ctx = ([''b'', ''a''], demo_ctx) \<and>
   get_subdomains demo_services demo_ip_host_ctx = ([], demo_ip_host_ctx)"
proof -
  have off: "subdomainOffset (app demo_ctx) = 2"
    by (simp add: demo_ctx_def demo_app_def)
  have sp: "split_on CHR ''.'' ''a.b.example.com'' = [''a'', ''b'', ''example'', ''com'']"
    by simp
  show ?thesis
    using off sp demo_isIP_name demo_isIP_address demo_hostname
      subdomains_spec [OF demo_hostname] subdomains_spec [OF demo_ip_hostname]
    by simp
qed

text \<open>
  C8 as stated fails for a hostname that is an IP address: the source returns the empty
  list before it splits.
\<close>

theorem subdomains_of_address_counterexample:
  "fst (get_hostname demo_services demo_ip_host_ctx) = ''127.0.0.1'' \<and>
   subdomainOffset (app demo_ip_host_ctx) = 2 \<and>
   fst (get_subdomains demo_services demo_ip_host_ctx) = [] \<and>
   drop 2 (rev (split_on CHR ''.'' ''127.0.0.1'')) = [''0'', ''127'']"
  by (simp add: get_subdomains_def demo_ip_hostname demo_isIP_address)
     (simp add: demo_ip_host_ctx_def demo_ctx_def demo_app_def)

section \<open>Error recovery\<close>

text \<open>
  C2.  When the headers have been sent, or the response is no longer writable, error
  recovery returns the context as it found it: no header, status or body of the response
  changes.  It sets \<open>headerSent\<close> on the error and emits that error, once, on the error
  channel of the application.
\<close>

theorem onerror_after_headers_sent:
  assumes "headerSent c \<or> \<not> writable c" and "as_error t = Some e"
  shows "onerror sv t c =
           Inr (c, Some (e\<lparr>err_headerSent := True\<rparr>), [e\<lparr>err_headerSent := True\<rparr>])"
  using assms by (auto simp: onerror_def Let_def)

theorem onerror_after_headers_sent_witness:
  "headerSent demo_flushed_ctx \<and>
   onerror demo_services (ThrownError demo_defect) demo_flushed_ctx =
     Inr (demo_flushed_ctx, Some (demo_defect\<lparr>err_headerSent := True\<rparr>),
          [demo_defect\<lparr>err_headerSent := True\<rparr>])"
proof -
  have h: "headerSent demo_flushed_ctx"
    by (simp add: headerSent_def demo_flushed_ctx_def demo_res_def)
  have e: "as_error (ThrownError demo_defect) = Some demo_defect"
    by (simp add: as_error_def)
  show ?thesis
    using h onerror_after_headers_sent [OF disjI1 [OF h] e, of demo_services] by simp
qed

lemma lower_content_type: "toLowerCase ''Content-Type'' = ''content-type''"
  by (simp add: toLowerCase_def lower_char_def)

lemma lower_content_length: "toLowerCase ''Content-Length'' = ''content-length''"
  by (simp add: toLowerCase_def lower_char_def)

lemma lower_transfer_encoding: "toLowerCase ''Transfer-Encoding'' = ''transfer-encoding''"
  by (simp add: toLowerCase_def lower_char_def)

lemma set_header_keeps:
  "headersSent (res (set_header k v c)) = headersSent (res c)"
  "statusCode (res (set_header k v c)) = statusCode (res c)"
  "finished (res (set_header k v c)) = finished (res c)"
  "sent_body (res (set_header k v c)) = sent_body (res c)"
  "body_val (set_header k v c) = body_val c"
  by (simp_all add: set_header_def headerSent_def)

lemma set_headers_keeps:
  "headersSent (res (set_headers kvs c)) = headersSent (res c)"
  "statusCode (res (set_headers kvs c)) = statusCode (res c)"
  "body_val (set_headers kvs c) = body_val c"
  unfolding set_headers_def
  by (induction kvs arbitrary: c) (auto simp: set_header_keeps)

lemma resolve_status_cases:
  "resolve_status sv e =
     (if err_code e = JStr ''ENOENT'' then (if known sv 404 then 404 else 500)
      else (case js_or (err_status e) (err_statusCode e) of
              JNum n \<Rightarrow> if known sv n then n else 500
            | _ \<Rightarrow> 500))"
  by (auto simp: resolve_status_def known_def str_or_def Let_def split: jsval.splits option.splits)

lemma resolve_status_known: "resolve_status sv e = 500 \<or> known sv (resolve_status sv e)"
  by (auto simp: resolve_status_cases split: jsval.splits)

lemma onerror_recovers:
  assumes "\<not> headerSent c" "writable c" "as_error t = Some e" "resolve_msg sv e = Some msg"
  shows "outcome_status (onerror sv t c) = Some (resolve_status sv e)"
    and "outcome_body (onerror sv t c) = Some msg"
    and "outcome_error (onerror sv t c) = Some (e\<lparr>err_status := JNum (resolve_status sv e)\<rparr>)"
    and "outcome_emitted (onerror sv t c) = [e]"
  using assms
  by (simp_all add: onerror_def Let_def res_end_def set_length_def set_status_def set_type_text_def
      set_header_def headerSent_def set_header_keeps set_headers_keeps outcome_status_def
      outcome_body_def outcome_error_def outcome_emitted_def outcome_ctx_def)

lemma resolve_msg_defined:
  assumes "known sv 500"
  shows "\<exists>msg. resolve_msg sv e = Some msg"
proof (cases "truthy (err_expose e)")
  case True
  then show ?thesis by (simp add: resolve_msg_def)
next
  case False
  have "known sv (resolve_status sv e)"
    using resolve_status_known [of sv e] assms by auto
  then show ?thesis
    using False by (auto simp: resolve_msg_def known_def split: option.splits)
qed

text \<open>
  C1 (amended).  When error recovery runs with the headers not sent and the response
  writable, on a status table that knows 500, the candidate for the status is 404 for an
  error with the code ENOENT (whatever status the error has), and otherwise the status of
  the error, or its \<open>statusCode\<close> when \<open>status\<close> is falsy.  The status resolved is the
  candidate when it is a number of the table, and 500 in every other case: a number that
  the table does not list, a value that is not a number, no status at all.  The body sent
  is the message of the error when the error is exposable, and the reason phrase of the
  resolved status otherwise.  The resolved status is the status of the response and the
  status of the error afterwards.
\<close>

theorem onerror_resolution:
  assumes "\<not> headerSent c" and "writable c" and "as_error t = Some e" and "known sv 500"
  shows "(err_code e = JStr ''ENOENT'' \<and> known sv 404 \<longrightarrow> resolve_status sv e = 404) \<and>
         (err_code e = JStr ''ENOENT'' \<and> \<not> known sv 404 \<longrightarrow> resolve_status sv e = 500) \<and>
         (err_code e \<noteq> JStr ''ENOENT'' \<and> js_or (err_status e) (err_statusCode e) = JNum k \<and>
          known sv k \<longrightarrow> resolve_status sv e = k) \<and>
         (err_code e \<noteq> JStr ''ENOENT'' \<and> js_or (err_status e) (err_statusCode e) = JNum k \<and>
          \<not> known sv k \<longrightarrow> resolve_status sv e = 500) \<and>
         (err_code e \<noteq> JStr ''ENOENT'' \<and> err_status e = JNum n \<and> n \<noteq> 0 \<and> known sv n \<longrightarrow>
            resolve_status sv e = n) \<and>
         (err_code e \<noteq> JStr ''ENOENT'' \<and> err_status e = JNum n \<and> n \<noteq> 0 \<and> \<not> known sv n \<longrightarrow>
            resolve_status sv e = 500) \<and>
         (err_code e \<noteq> JStr ''ENOENT'' \<and> \<not> truthy (err_status e) \<and> err_statusCode e = JNum n \<and>
          known sv n \<longrightarrow> resolve_status sv e = n) \<and>
         (err_code e \<noteq> JStr ''ENOENT'' \<and> err_status e = JUndefined \<and>
          err_statusCode e = JUndefined \<longrightarrow> resolve_status sv e = 500) \<and>
         (err_code e \<noteq> JStr ''ENOENT'' \<and> (\<forall>k. js_or (err_status e) (err_statusCode e) \<noteq> JNum k) \<longrightarrow>
            resolve_status sv e = 500) \<and>
         (resolve_status sv e = 500 \<or> known sv (resolve_status sv e)) \<and>
         (truthy (err_expose e) \<longrightarrow>
            outcome_body (onerror sv t c) = Some (err_message e)) \<and>
         (\<not> truthy (err_expose e) \<longrightarrow>
            outcome_body (onerror sv t c) = statuses sv (resolve_status sv e)) \<and>
         outcome_body (onerror sv t c) \<noteq> None \<and>
         outcome_status (onerror sv t c) = Some (resolve_status sv e) \<and>
         outcome_error (onerror sv t c) = Some (e\<lparr>err_status := JNum (resolve_status sv e)\<rparr>)"
proof -
  have enoent: "err_code e = JStr ''ENOENT'' \<and> known sv 404 \<longrightarrow> resolve_status sv e = 404"
    by (simp add: resolve_status_cases)
  have enoent_unlisted: "err_code e = JStr ''ENOENT'' \<and> \<not> known sv 404 \<longrightarrow>
      resolve_status sv e = 500"
    by (simp add: resolve_status_cases)
  have listed: "err_code e \<noteq> JStr ''ENOENT'' \<and> js_or (err_status e) (err_statusCode e) = JNum k \<and>
      known sv k \<longrightarrow> resolve_status sv e = k"
    by (simp add: resolve_status_cases)
  have unlisted: "err_code e \<noteq> JStr ''ENOENT'' \<and> js_or (err_status e) (err_statusCode e) = JNum k \<and>
      \<not> known sv k \<longrightarrow> resolve_status sv e = 500"
    by (simp add: resolve_status_cases)
  have explicit_unlisted: "err_code e \<noteq> JStr ''ENOENT'' \<and> err_status e = JNum n \<and> n \<noteq> 0 \<and>
      \<not> known sv n \<longrightarrow> resolve_status sv e = 500"
    by (simp add: resolve_status_cases js_or_def)
  have explicit: "err_code e \<noteq> JStr ''ENOENT'' \<and> err_status e = JNum n \<and> n \<noteq> 0 \<and> known sv n \<longrightarrow>
      resolve_status sv e = n"
    by (simp add: resolve_status_cases js_or_def)
  have fallback: "err_code e \<noteq> JStr ''ENOENT'' \<and> \<not> truthy (err_status e) \<and>
      err_statusCode e = JNum n \<and> known sv n \<longrightarrow> resolve_status sv e = n"
    by (simp add: resolve_status_cases js_or_def)
  have dflt: "err_code e \<noteq> JStr ''ENOENT'' \<and> err_status e = JUndefined \<and>
      err_statusCode e = JUndefined \<longrightarrow> resolve_status sv e = 500"
    by (simp add: resolve_status_cases js_or_def)
  have nonnum: "err_code e \<noteq> JStr ''ENOENT'' \<and>
      (\<forall>k. js_or (err_status e) (err_statusCode e) \<noteq> JNum k) \<longrightarrow> resolve_status sv e = 500"
    by (cases "js_or (err_status e) (err_statusCode e)") (auto simp: resolve_status_cases)
  obtain msg where msg: "resolve_msg sv e = Some msg"
    using resolve_msg_defined [OF assms(4)] by blast
  have exposed: "truthy (err_expose e) \<longrightarrow> msg = err_message e"
    using msg by (auto simp: resolve_msg_def split: if_splits)
  have generic: "\<not> truthy (err_expose e) \<longrightarrow> statuses sv (resolve_status sv e) = Some msg"
    using msg by (auto simp: resolve_msg_def split: if_splits)
  note rec = onerror_recovers(1-3) [OF assms(1-3) msg]
  have body1: "truthy (err_expose e) \<longrightarrow> outcome_body (onerror sv t c) = Some (err_message e)"
    using exposed rec(2) by simp
  have body2: "\<not> truthy (err_expose e) \<longrightarrow>
      outcome_body (onerror sv t c) = statuses sv (resolve_status sv e)"
    using generic rec(2) by simp
  have body3: "outcome_body (onerror sv t c) \<noteq> None"
    using rec(2) by simp
  show ?thesis
    using enoent enoent_unlisted listed unlisted explicit explicit_unlisted fallback dflt nonnum
      resolve_status_known [of sv e] body1 body2 body3 rec(1) rec(3)
    by blast
qed

lemma demo_known: "known demo_services 404" "known demo_services 418" "known demo_services 403"
  "known demo_services 500"
  by (simp_all add: known_def demo_services_def demo_statuses_def)

lemma demo_open: "\<not> headerSent demo_ctx" "writable demo_ctx"
  by (simp_all add: headerSent_def writable_def demo_ctx_def demo_res_def)

theorem onerror_resolution_witness:
  "\<not> headerSent demo_ctx \<and> writable demo_ctx \<and> known demo_services 500 \<and>
   outcome_status (onerror demo_services (ThrownError demo_teapot) demo_ctx) = Some 418 \<and>
   outcome_body (onerror demo_services (ThrownError demo_teapot) demo_ctx) = Some ''teapot'' \<and>
   outcome_error (onerror demo_services (ThrownError demo_teapot) demo_ctx) =
     Some (demo_teapot\<lparr>err_status := JNum 418\<rparr>) \<and>
   outcome_status (onerror demo_services (ThrownError demo_defect) demo_ctx) = Some 500 \<and>
   outcome_body (onerror demo_services (ThrownError demo_defect) demo_ctx) =
     Some ''Internal Server Error'' \<and>
   outcome_error (onerror demo_services (ThrownError demo_defect) demo_ctx) =
     Some (demo_defect\<lparr>err_status := JNum 500\<rparr>) \<and>
   err_status demo_unlisted = JNum 999 \<and> \<not> known demo_services 999 \<and>
   outcome_status (onerror demo_services (ThrownError demo_unlisted) demo_ctx) = Some 500 \<and>
   outcome_body (onerror demo_services (ThrownError demo_unlisted) demo_ctx) =
     Some ''Internal Server Error'' \<and>
   outcome_error (onerror demo_services (ThrownError demo_unlisted) demo_ctx) =
     Some (demo_unlisted\<lparr>err_status := JNum 500\<rparr>)"
proof -
  have t: "as_error (ThrownError demo_teapot) = Some demo_teapot"
    and d: "as_error (ThrownError demo_defect) = Some demo_defect"
    and u: "as_error (ThrownError demo_unlisted) = Some demo_unlisted"
    by (simp_all add: as_error_def)
  have ft: "err_code demo_teapot \<noteq> JStr ''ENOENT''" "err_status demo_teapot = JNum 418"
    "truthy (err_expose demo_teapot)" "err_message demo_teapot = ''teapot''"
    by (simp_all add: demo_teapot_def new_Error_def)
  have fd: "err_code demo_defect \<noteq> JStr ''ENOENT''" "err_status demo_defect = JUndefined"
    "err_statusCode demo_defect = JUndefined" "\<not> truthy (err_expose demo_defect)"
    by (simp_all add: demo_defect_def new_Error_def)
  have fu: "err_code demo_unlisted \<noteq> JStr ''ENOENT''" "err_status demo_unlisted = JNum 999"
    "\<not> truthy (err_expose demo_unlisted)"
    by (simp_all add: demo_unlisted_def new_Error_def)
  have nk: "\<not> known demo_services 999"
    by (simp add: known_def demo_services_def demo_statuses_def)
  have pd: "statuses demo_services 500 = Some ''Internal Server Error''"
    by (simp add: demo_services_def demo_statuses_def)
  note T = onerror_resolution [OF demo_open t demo_known(4), of 418 418]
  note D = onerror_resolution [OF demo_open d demo_known(4), of 500 500]
  note U = onerror_resolution [OF demo_open u demo_known(4), of 999 999]
  have st: "resolve_status demo_services demo_teapot = 418"
    using T ft(1,2) demo_known(2) by simp
  have sd: "resolve_status demo_services demo_defect = 500"
    using D fd(1-3) by blast
  have su: "resolve_status demo_services demo_unlisted = 500"
    using U fu(1,2) nk by simp
  have t1: "outcome_status (onerror demo_services (ThrownError demo_teapot) demo_ctx) = Some 418"
    using T st by simp
  have t2: "outcome_body (onerror demo_services (ThrownError demo_teapot) demo_ctx) = Some ''teapot''"
    using T ft(3,4) by simp
  have t3: "outcome_error (onerror demo_services (ThrownError demo_teapot) demo_ctx) =
     Some (demo_teapot\<lparr>err_status := JNum 418\<rparr>)"
    using T st by simp
  have d1: "outcome_status (onerror demo_services (ThrownError demo_defect) demo_ctx) = Some 500"
    using D sd by simp
  have d2: "outcome_body (onerror demo_services (ThrownError demo_defect) demo_ctx) =
     Some ''Internal Server Error''"
    using D fd(4) sd pd by simp
  have d3: "outcome_error (onerror demo_services (ThrownError demo_defect) demo_ctx) =
     Some (demo_defect\<lparr>err_status := JNum 500\<rparr>)"
    using D sd by simp
  have u1: "outcome_status (onerror demo_services (ThrownError demo_unlisted) demo_ctx) = Some 500"
    using U su by simp
  have u2: "outcome_body (onerror demo_services (ThrownError demo_unlisted) demo_ctx) =
     Some ''Internal Server Error''"
    using U fu(3) su pd by simp
  have u3: "outcome_error (onerror demo_services (ThrownError demo_unlisted) demo_ctx) =
     Some (demo_unlisted\<lparr>err_status := JNum 500\<rparr>)"
    using U su by simp
  show ?thesis
    using demo_open demo_known(4) t1 t2 t3 d1 d2 d3 fu(2) nk u1 u2 u3 by (simp only: simp_thms)
qed

lemma demo_enoent_status: "resolve_status demo_services demo_enoent = 404"
  using demo_known by (simp add: resolve_status_cases demo_enoent_def new_Error_def)

lemma demo_enoent_msg: "resolve_msg demo_services demo_enoent = Some ''Not Found''"
  unfolding resolve_msg_def demo_enoent_status
  by (simp add: demo_enoent_def new_Error_def demo_services_def demo_statuses_def)

text \<open>
  C1 as stated fails for an error that has both a status of its own and the code
  ENOENT: the status 403 of the error is in the table, and the response is a 404.
\<close>

theorem onerror_explicit_status_counterexample:
  "err_status demo_enoent = JNum 403 \<and>
   statuses demo_services 403 = Some ''Forbidden'' \<and>
   \<not> headerSent demo_ctx \<and> writable demo_ctx \<and>
   outcome_status (onerror demo_services (ThrownError demo_enoent) demo_ctx) = Some 404 \<and>
   outcome_body (onerror demo_services (ThrownError demo_enoent) demo_ctx) = Some ''Not Found'' \<and>
   outcome_error (onerror demo_services (ThrownError demo_enoent) demo_ctx) =
     Some (demo_enoent\<lparr>err_status := JNum 404\<rparr>)"
proof -
  have e: "as_error (ThrownError demo_enoent) = Some demo_enoent"
    by (simp add: as_error_def)
  have "err_status demo_enoent = JNum 403" "statuses demo_services 403 = Some ''Forbidden''"
    by (simp_all add: demo_enoent_def new_Error_def demo_services_def demo_statuses_def)
  then show ?thesis
    using demo_open onerror_recovers(1-3) [OF demo_open e demo_enoent_msg]
    by (simp add: demo_enoent_status)
qed

section \<open>The dispatcher and the finalizer\<close>

lemma remove_keeps:
  "headersSent (res (remove k c)) = headersSent (res c)"
  "statusCode (res (remove k c)) = statusCode (res c)"
  "finished (res (remove k c)) = finished (res c)"
  "sent_body (res (remove k c)) = sent_body (res c)"
  "body_val (remove k c) = body_val c"
  by (simp_all add: remove_def headerSent_def)

lemma res_end_result:
  "statusCode (res (res_end p c)) = statusCode (res c)"
  "res_headers (res (res_end p c)) = res_headers (res c)"
  "body_val (res_end p c) = body_val c"
  "finished (res (res_end p c))"
  "sent_body (res (res_end p c)) = Some (case p of None \<Rightarrow> [] | Some s \<Rightarrow> s)"
  by (simp_all add: res_end_def)

lemma set_body_null_result:
  "statusCode (res (set_body_null c)) = statusCode (res c)"
  "body_val (set_body_null c) = BNull"
  "\<not> headersSent (res c) \<Longrightarrow> res_headers (res (set_body_null c)) ''content-length'' = None"
  by (simp_all add: set_body_null_def remove_keeps)
     (simp add: remove_def headerSent_def lower_content_length lower_transfer_encoding
       lower_content_type)

lemma set_body_null_flushed:
  "headersSent (res c) \<Longrightarrow> res_headers (res (set_body_null c)) = res_headers (res c)"
  by (simp add: set_body_null_def remove_def headerSent_def)

lemma respond_keeps_status: "statusCode (res (respond sv c)) = statusCode (res c)"
  by (simp add: respond_def Let_def res_end_result set_body_null_result set_length_def
      set_type_text_def set_header_keeps remove_keeps split: body_t.splits option.splits)

text \<open>
  C3.  The dispatcher sets the status code of the raw response to 404 and then calls the
  composed middleware, on the context with that status; when the chain completes and has
  left the status at 404, the response the finalizer leaves has the status 404.
\<close>

theorem handleRequest_presets_404:
  "handleRequest sv c fn = settle sv (fn (c\<lparr>res := (res c)\<lparr>statusCode := 404\<rparr>\<rparr>)) \<and>
   get_status (c\<lparr>res := (res c)\<lparr>statusCode := 404\<rparr>\<rparr>) = 404 \<and>
   (fn (c\<lparr>res := (res c)\<lparr>statusCode := 404\<rparr>\<rparr>) = (c1, None) \<and> get_status c1 = 404 \<longrightarrow>
      handleRequest sv c fn = Inr (respond sv c1, None, []) \<and>
      outcome_status (handleRequest sv c fn) = Some 404)"
  by (simp add: handleRequest_def settle_def get_status_def outcome_status_def outcome_ctx_def
      respond_keeps_status)

theorem handleRequest_presets_404_witness:
  "demo_idle_chain (demo_ctx\<lparr>res := (res demo_ctx)\<lparr>statusCode := 404\<rparr>\<rparr>) =
     (demo_ctx\<lparr>res := (res demo_ctx)\<lparr>statusCode := 404\<rparr>\<rparr>, None) \<and>
   outcome_status (handleRequest demo_services demo_ctx demo_idle_chain) = Some 404 \<and>
   outcome_body (handleRequest demo_services demo_ctx demo_idle_chain) = Some ''Not Found''"
proof -
  let ?c = "demo_ctx\<lparr>res := (res demo_ctx)\<lparr>statusCode := 404\<rparr>\<rparr>"
  have idle: "demo_idle_chain ?c = (?c, None)"
    by (simp add: demo_idle_chain_def)
  have st: "get_status ?c = 404"
    by (simp add: get_status_def)
  note H = handleRequest_presets_404 [of demo_services demo_ctx demo_idle_chain ?c]
  have run: "handleRequest demo_services demo_ctx demo_idle_chain = Inr (respond demo_services ?c, None, [])"
    and code: "outcome_status (handleRequest demo_services demo_ctx demo_idle_chain) = Some 404"
    using H idle st by blast+
  have "sent_body (res (respond demo_services ?c)) = Some ''Not Found''"
    by (simp add: respond_def writable_def get_status_def get_message_def str_or_def res_end_def
        demo_ctx_def demo_res_def demo_req_def demo_services_def demo_statuses_def)
  then have "outcome_body (handleRequest demo_services demo_ctx demo_idle_chain) = Some ''Not Found''"
    unfolding run by (simp add: outcome_body_def outcome_ctx_def)
  then show ?thesis
    using idle code by simp
qed

text \<open>
  C4 (amended).  When the finalizer runs (the context has not opted out, the response is
  writable) at a status of the body-forbidding set, then whatever body was staged, the
  body of the context is null afterwards, and the response has ended with an empty
  payload: no byte of body.  When the headers were not yet sent, no Content-Length header
  is left: the header is absent, it is not set to zero.  When the headers were already
  sent, the headers are left as they were, a Content-Length header included.
\<close>

theorem respond_empty_status:
  assumes "respond_on c" and "writable c" and "statuses_empty sv (get_status c)"
  shows "body_val (respond sv c) = BNull \<and>
         sent_body (res (respond sv c)) = Some [] \<and>
         finished (res (respond sv c)) \<and>
         (\<not> headersSent (res c) \<longrightarrow> res_headers (res (respond sv c)) ''content-length'' = None) \<and>
         (headersSent (res c) \<longrightarrow> res_headers (res (respond sv c)) = res_headers (res c))"
  using assms
  by (simp add: respond_def res_end_result set_body_null_result set_body_null_flushed)

lemma demo_no_content: "respond_on demo_no_content_ctx" "writable demo_no_content_ctx"
  "statuses_empty demo_services (get_status demo_no_content_ctx)"
  "\<not> headersSent (res demo_no_content_ctx)"
  "body_val demo_no_content_ctx = BText ''hello''"
  "res_headers (res demo_no_content_ctx) ''content-length'' = Some ''5''"
  by (simp_all add: demo_no_content_ctx_def demo_ctx_def demo_res_def writable_def get_status_def
      demo_services_def)

lemma demo_no_content_flushed: "respond_on demo_no_content_flushed_ctx"
  "writable demo_no_content_flushed_ctx"
  "statuses_empty demo_services (get_status demo_no_content_flushed_ctx)"
  "headersSent (res demo_no_content_flushed_ctx)"
  "body_val demo_no_content_flushed_ctx = BText ''hello''"
  "res_headers (res demo_no_content_flushed_ctx) ''content-length'' = Some ''5''"
  by (simp_all add: demo_no_content_flushed_ctx_def demo_no_content_ctx_def demo_ctx_def
      demo_res_def writable_def get_status_def demo_services_def)

theorem respond_empty_status_witness:
  "respond_on demo_no_content_ctx \<and> writable demo_no_content_ctx \<and>
   statuses_empty demo_services (get_status demo_no_content_ctx) \<and>
   \<not> headersSent (res demo_no_content_ctx) \<and>
   body_val demo_no_content_ctx = BText ''hello'' \<and>
   res_headers (res demo_no_content_ctx) ''content-length'' = Some ''5'' \<and>
   body_val (respond demo_services demo_no_content_ctx) = BNull \<and>
   sent_body (res (respond demo_services demo_no_content_ctx)) = Some [] \<and>
   res_headers (res (respond demo_services demo_no_content_ctx)) ''content-length'' = None \<and>
   respond_on demo_no_content_flushed_ctx \<and> writable demo_no_content_flushed_ctx \<and>
   statuses_empty demo_services (get_status demo_no_content_flushed_ctx) \<and>
   headersSent (res demo_no_content_flushed_ctx) \<and>
   body_val (respond demo_services demo_no_content_flushed_ctx) = BNull \<and>
   sent_body (res (respond demo_services demo_no_content_flushed_ctx)) = Some [] \<and>
   res_headers (res (respond demo_services demo_no_content_flushed_ctx)) =
     res_headers (res demo_no_content_flushed_ctx)"
  using demo_no_content respond_empty_status [OF demo_no_content(1-3)]
    demo_no_content_flushed respond_empty_status [OF demo_no_content_flushed(1-3)]
  by simp

text \<open>
  C4 as stated fails when the headers have been sent before the finalizer runs: the
  finalizer has no guard on the headers at a status of the body-forbidding set, the
  assignment of the null body can no longer remove a header, and a response of status
  204 that was flushed with a Content-Length of 5 ends with no byte of body and still
  declares the length 5.
\<close>

theorem respond_empty_status_flushed_counterexample:
  "respond_on demo_no_content_flushed_ctx \<and> writable demo_no_content_flushed_ctx \<and>
   get_status demo_no_content_flushed_ctx = 204 \<and>
   statuses_empty demo_services (get_status demo_no_content_flushed_ctx) \<and>
   headersSent (res demo_no_content_flushed_ctx) \<and>
   body_val (respond demo_services demo_no_content_flushed_ctx) = BNull \<and>
   sent_body (res (respond demo_services demo_no_content_flushed_ctx)) = Some [] \<and>
   res_headers (res (respond demo_services demo_no_content_flushed_ctx)) ''content-length'' =
     Some ''5'' \<and>
   get_length (respond demo_services demo_no_content_flushed_ctx) = Some 5"
proof -
  have r: "respond demo_services demo_no_content_flushed_ctx =
      res_end None (set_body_null demo_no_content_flushed_ctx)"
    using demo_no_content_flushed(1-3) by (simp add: respond_def)
  have code: "get_status demo_no_content_flushed_ctx = 204"
    by (simp add: get_status_def demo_no_content_flushed_ctx_def demo_no_content_ctx_def)
  have h: "res_headers (res (respond demo_services demo_no_content_flushed_ctx)) ''content-length'' =
      Some ''5''"
    unfolding r
    using demo_no_content_flushed(4,6)
    by (simp add: res_end_result set_body_null_flushed)
  have b: "body_val (respond demo_services demo_no_content_flushed_ctx) = BNull"
    unfolding r by (simp add: res_end_result set_body_null_result)
  have s: "sent_body (res (respond demo_services demo_no_content_flushed_ctx)) = Some []"
    unfolding r by (simp add: res_end_result)
  have five: "parse_decimal ''5'' = 5"
    by (simp add: parse_decimal_def digit_value_def)
  have l: "get_length (respond demo_services demo_no_content_flushed_ctx) = Some 5"
    using h five by (simp add: get_length_def)
  show ?thesis
    using demo_no_content_flushed(1-4) code b s h l by (simp only: simp_thms)
qed

lemma has_content_length: "has c ''Content-Length'' = (res_headers (res c) ''content-length'' \<noteq> None)"
  by (simp add: has_def lower_content_length)

lemma set_length_result:
  "\<not> headersSent (res c) \<Longrightarrow>
     res_headers (res (set_length n c)) ''content-length'' = Some (string_of_int n)"
  by (simp add: set_length_def set_header_def headerSent_def lower_content_length)

text \<open>
  C5 (amended).  When the finalizer runs for a HEAD request at a status that allows a
  body, it ends the response with an empty payload and leaves the staged body as it is.
  When the headers are not yet sent and no Content-Length header is set, a staged body
  with a length (a text, a buffer, a structured value) gets the Content-Length header of
  that length; when the headers are sent, or a Content-Length header is set, or the body
  has no length (none staged, a stream), the headers stay as they are.
\<close>

theorem respond_head:
  assumes "respond_on c" and "writable c" and "\<not> statuses_empty sv (get_status c)"
    and "req_method (req c) = ''HEAD''"
  shows "sent_body (res (respond sv c)) = Some [] \<and>
         body_val (respond sv c) = body_val c \<and>
         (\<not> headersSent (res c) \<and> \<not> has c ''Content-Length'' \<and>
          body_length (body_val c) = Some n \<longrightarrow>
            res_headers (res (respond sv c)) ''content-length'' = Some (string_of_int n)) \<and>
         (headersSent (res c) \<or> has c ''Content-Length'' \<or> body_length (body_val c) = None \<longrightarrow>
            res_headers (res (respond sv c)) = res_headers (res c))"
proof -
  have r: "respond sv c =
      res_end None
        (if \<not> headersSent (res c) \<and> \<not> has c ''Content-Length''
         then (case get_length c of None \<Rightarrow> c | Some n \<Rightarrow> set_length n c)
         else c)"
    using assms by (simp add: respond_def)
  have sent: "sent_body (res (respond sv c)) = Some []"
    unfolding r by (simp add: res_end_result)
  have body: "body_val (respond sv c) = body_val c"
    unfolding r by (simp add: res_end_result set_length_def set_header_keeps split: option.splits)
  have len: "\<not> has c ''Content-Length'' \<Longrightarrow> get_length c = body_length (body_val c)"
    by (simp add: has_content_length get_length_def)
  have hdr: "\<not> headersSent (res c) \<and> \<not> has c ''Content-Length'' \<and>
          body_length (body_val c) = Some n \<longrightarrow>
            res_headers (res (respond sv c)) ''content-length'' = Some (string_of_int n)"
    unfolding r using len by (simp add: res_end_result set_length_result)
  have same: "headersSent (res c) \<or> has c ''Content-Length'' \<or> body_length (body_val c) = None \<longrightarrow>
            res_headers (res (respond sv c)) = res_headers (res c)"
    unfolding r using len by (auto simp: res_end_result)
  show ?thesis
    using sent body hdr same by blast
qed

lemma demo_head: "respond_on demo_head_ctx" "writable demo_head_ctx"
  "\<not> statuses_empty demo_services (get_status demo_head_ctx)"
  "req_method (req demo_head_ctx) = ''HEAD''"
  "\<not> headersSent (res demo_head_ctx)" "\<not> has demo_head_ctx ''Content-Length''"
  "body_val demo_head_ctx = BText ''hello''"
  by (simp_all add: demo_head_ctx_def demo_ctx_def demo_res_def demo_req_def writable_def
      get_status_def demo_services_def has_def)

theorem respond_head_witness:
  "respond_on demo_head_ctx \<and> writable demo_head_ctx \<and>
   req_method (req demo_head_ctx) = ''HEAD'' \<and> body_val demo_head_ctx = BText ''hello'' \<and>
   sent_body (res (respond demo_services demo_head_ctx)) = Some [] \<and>
   res_headers (res (respond demo_services demo_head_ctx)) ''content-length'' = Some ''5''"
proof -
  have five: "string_of_int 5 = ''5''"
    by (simp add: string_of_int_def string_of_nat.simps [of 5])
  show ?thesis
    using demo_head five respond_head [OF demo_head(1-4), of 5] by simp
qed

lemma demo_head_flushed: "respond_on demo_head_flushed_ctx" "writable demo_head_flushed_ctx"
  "\<not> statuses_empty demo_services (get_status demo_head_flushed_ctx)"
  "req_method (req demo_head_flushed_ctx) = ''HEAD''"
  "headersSent (res demo_head_flushed_ctx)"
  "body_val demo_head_flushed_ctx = BText ''hello''"
  "res_headers (res demo_head_flushed_ctx) ''content-length'' = None"
  by (simp_all add: demo_head_flushed_ctx_def demo_head_ctx_def demo_ctx_def demo_res_def
      demo_req_def writable_def get_status_def demo_services_def)

text \<open>
  C5 as stated fails when the headers have been sent before the finalizer runs: the
  body of five bytes is staged, and the response ends without a Content-Length header.
\<close>

theorem respond_head_flushed_counterexample:
  "respond_on demo_head_flushed_ctx \<and> writable demo_head_flushed_ctx \<and>
   \<not> statuses_empty demo_services (get_status demo_head_flushed_ctx) \<and>
   req_method (req demo_head_flushed_ctx) = ''HEAD'' \<and>
   body_val demo_head_flushed_ctx = BText ''hello'' \<and>
   sent_body (res (respond demo_services demo_head_flushed_ctx)) = Some [] \<and>
   res_headers (res (respond demo_services demo_head_flushed_ctx)) ''content-length'' = None"
  using demo_head_flushed
  by (simp add: respond_def res_end_def)

end
